theory Spec2Isabelle
  imports Main
begin

section \<open>The vendor SDK boundary\<close>

text \<open>
  \<open>collect_images_headless.py\<close> drives the camera through the vendor class \<open>MvCamera\<close>.
  The SDK is not part of the repository: every status and value it returns is an input of
  the model, and every call the code issues is appended to the field \<open>calls\<close> of the
  camera, oldest first. For the calls whose status the code reads, the status is recorded
  with the call.
\<close>

datatype sdk_object = MvCamera

datatype sdk_call =
    MV_CC_EnumDevices
  | MV_CC_CreateHandle int
  | MV_CC_OpenDevice int
  | MV_CC_CloseDevice
  | MV_CC_DestroyHandle
  | MV_CC_GetIntValue string
  | MV_CC_GetEnumValue string
  | MV_CC_SetIntValue string int
  | MV_CC_SetEnumValue string int
  | MV_CC_SetCommandValue string
  | MV_CC_StartGrabbing int
  | MV_CC_StopGrabbing
  | MV_CC_GetOneFrameTimeout int int

text \<open>The two fields of \<open>MV_CC_DEVICE_INFO\<close> that \<open>_find_camera_by_ip\<close> reads.\<close>

record MV_CC_DEVICE_INFO =
  nTLayerType :: nat
  nCurrentIp :: nat

text \<open>The three fields of \<open>MV_FRAME_OUT_INFO_EX\<close> that \<open>get_frame\<close> reads.\<close>

record MV_FRAME_OUT_INFO_EX =
  nWidth :: nat
  nHeight :: nat
  enPixelType :: nat

text \<open>The value of the vendor header's constant \<open>MV_GIGE_DEVICE\<close>.\<close>

definition MV_GIGE_DEVICE :: nat where
  "MV_GIGE_DEVICE = 1"

section \<open>Exceptions\<close>

text \<open>
  One constructor for each place where the code, the interpreter or a library raises. The
  payload is what the message is formatted from.
\<close>

datatype py_error =
    RuntimeError_camera_not_found string
  | RuntimeError_create_handle int
  | RuntimeError_open_device int
  | RuntimeError_start_grabbing int
  | ValueError_unknown_trigger_mode string
  | ValueError_numpy
  | ValueError_ctypes
  | OverflowError_ctypes
  | MemoryError_ctypes
  | TypeError_byref
  | AttributeError_NoneType
  | cv2_error

section \<open>The camera object\<close>

text \<open>
  The attributes of \<open>HikrobotCamera\<close>. \<open>cam\<close> is \<open>None\<close> or the \<open>MvCamera\<close> object, which
  is truthy. The buffers are lists of bytes (integers from 0 to 255), \<open>None\<close> until
  \<open>start_grabbing\<close> allocates them.
\<close>

record camera =
  camera_ip :: string
  cam :: "sdk_object option"
  dev_info :: "MV_CC_DEVICE_INFO option"
  width :: int
  height :: int
  payload_size :: int
  pixel_format :: int
  pData :: "int list option"
  pDataBGR :: "int list option"
  stFrameInfo :: "MV_FRAME_OUT_INFO_EX option"
  calls :: "sdk_call list"

definition init :: "string \<Rightarrow> camera" where
  "init ip = \<lparr>camera_ip = ip, cam = None, dev_info = None, width = 0, height = 0,
     payload_size = 0, pixel_format = 0, pData = None, pDataBGR = None,
     stFrameInfo = None, calls = []\<rparr>"

section \<open>Finding the device and connecting\<close>

text \<open>Python's \<open>str\<close> of a non-negative integer, as the f-string formats each octet.\<close>

fun str_nat :: "nat \<Rightarrow> string" where
  "str_nat n =
     (if n < 10 then [''0123456789'' ! n]
      else str_nat (n div 10) @ [''0123456789'' ! (n mod 10)])"

definition ip_str :: "nat \<Rightarrow> string" where
  "ip_str ip_int =
     str_nat ((ip_int div 2 ^ 24) mod 256) @ ''.'' @
     str_nat ((ip_int div 2 ^ 16) mod 256) @ ''.'' @
     str_nat ((ip_int div 2 ^ 8) mod 256) @ ''.'' @
     str_nat (ip_int mod 256)"

fun find_camera_by_ip :: "MV_CC_DEVICE_INFO list \<Rightarrow> string \<Rightarrow> MV_CC_DEVICE_INFO option" where
  "find_camera_by_ip [] ip = None"
| "find_camera_by_ip (d # ds) ip =
     (if nTLayerType d = MV_GIGE_DEVICE \<and> ip_str (nCurrentIp d) = ip then Some d
      else find_camera_by_ip ds ip)"

text \<open>What the SDK answers during one \<open>connect\<close>, in the order the code asks.\<close>

record connect_env =
  devices :: "MV_CC_DEVICE_INFO list"
  ret_CreateHandle :: int
  ret_OpenDevice :: int
  cur_Width :: int
  cur_Height :: int
  cur_PayloadSize :: int
  cur_PixelFormat :: int
  ret_SetPixelFormat :: int
  new_PayloadSize :: int

definition BAYER_RG8 :: int where
  "BAYER_RG8 = 0x01080009"

definition connect :: "camera \<Rightarrow> connect_env \<Rightarrow> (py_error + unit) \<times> camera" where
  "connect c env =
     (let c1 = c\<lparr>dev_info := find_camera_by_ip (devices env) (camera_ip c),
                 calls := calls c @ [MV_CC_EnumDevices]\<rparr>
      in case dev_info c1 of
           None \<Rightarrow> (Inl (RuntimeError_camera_not_found (camera_ip c)), c1)
         | Some d \<Rightarrow>
             (let c2 = c1\<lparr>cam := Some MvCamera,
                          calls := calls c1 @ [MV_CC_CreateHandle (ret_CreateHandle env)]\<rparr>
              in if ret_CreateHandle env \<noteq> 0
                 then (Inl (RuntimeError_create_handle (ret_CreateHandle env)), c2)
                 else
                  (let c3 = c2\<lparr>calls := calls c2 @ [MV_CC_OpenDevice (ret_OpenDevice env)]\<rparr>
                   in if ret_OpenDevice env \<noteq> 0
                      then (Inl (RuntimeError_open_device (ret_OpenDevice env)),
                            c3\<lparr>calls := calls c3 @ [MV_CC_DestroyHandle]\<rparr>)
                      else
                       (let c4 = c3\<lparr>calls := calls c3 @
                                      [MV_CC_GetIntValue ''Width'', MV_CC_GetIntValue ''Height'',
                                       MV_CC_GetIntValue ''PayloadSize'',
                                       MV_CC_GetEnumValue ''PixelFormat''],
                                    width := cur_Width env, height := cur_Height env,
                                    payload_size := cur_PayloadSize env,
                                    pixel_format := cur_PixelFormat env\<rparr>
                        in if pixel_format c4 \<noteq> BAYER_RG8
                           then
                            (let c5 = c4\<lparr>calls := calls c4 @
                                           [MV_CC_SetEnumValue ''PixelFormat'' BAYER_RG8]\<rparr>
                             in if ret_SetPixelFormat env = 0
                                then (Inr (),
                                      c5\<lparr>pixel_format := BAYER_RG8,
                                         calls := calls c5 @ [MV_CC_GetIntValue ''PayloadSize''],
                                         payload_size := new_PayloadSize env\<rparr>)
                                else (Inr (), c5))
                           else (Inr (), c4)))))"

section \<open>Configuration\<close>

text \<open>
  \<open>set_roi\<close>: the last argument is the \<open>PayloadSize\<close> the device reports after the four
  writes. The statuses of the writes are not read by the code.
\<close>

definition set_roi ::
  "camera \<Rightarrow> int \<Rightarrow> int \<Rightarrow> int option \<Rightarrow> int option \<Rightarrow> int \<Rightarrow> (py_error + unit) \<times> camera" where
  "set_roi c width' height' offset_x offset_y payload =
     (let orig_w = width c; orig_h = height c;
          offset_x1 = (case offset_x of None \<Rightarrow> (orig_w - width') div 2 | Some x \<Rightarrow> x);
          offset_y1 = (case offset_y of None \<Rightarrow> (orig_h - height') div 2 | Some y \<Rightarrow> y);
          offset_x2 = max 0 (min offset_x1 (orig_w - width'));
          offset_y2 = max 0 (min offset_y1 (orig_h - height'))
      in case cam c of
           None \<Rightarrow> (Inl AttributeError_NoneType, c)
         | Some _ \<Rightarrow>
             (Inr (),
              c\<lparr>calls := calls c @
                   [MV_CC_SetIntValue ''Width'' width', MV_CC_SetIntValue ''Height'' height',
                    MV_CC_SetIntValue ''OffsetX'' offset_x2,
                    MV_CC_SetIntValue ''OffsetY'' offset_y2,
                    MV_CC_GetIntValue ''PayloadSize''],
                payload_size := payload, width := width', height := height'\<rparr>))"

definition set_trigger_mode :: "camera \<Rightarrow> string \<Rightarrow> (py_error + unit) \<times> camera" where
  "set_trigger_mode c mode =
     (if mode = ''continuous'' then
        (case cam c of
           None \<Rightarrow> (Inl AttributeError_NoneType, c)
         | Some _ \<Rightarrow> (Inr (), c\<lparr>calls := calls c @ [MV_CC_SetEnumValue ''TriggerMode'' 0]\<rparr>))
      else if mode = ''software'' then
        (case cam c of
           None \<Rightarrow> (Inl AttributeError_NoneType, c)
         | Some _ \<Rightarrow>
             (Inr (), c\<lparr>calls := calls c @
                          [MV_CC_SetEnumValue ''TriggerMode'' 1,
                           MV_CC_SetEnumValue ''TriggerSource'' 7]\<rparr>))
      else if mode = ''hardware'' then
        (case cam c of
           None \<Rightarrow> (Inl AttributeError_NoneType, c)
         | Some _ \<Rightarrow>
             (Inr (), c\<lparr>calls := calls c @
                          [MV_CC_SetEnumValue ''TriggerMode'' 1,
                           MV_CC_SetEnumValue ''TriggerSource'' 0,
                           MV_CC_SetEnumValue ''TriggerActivation'' 0]\<rparr>))
      else (Inl (ValueError_unknown_trigger_mode mode), c))"

section \<open>Streaming\<close>

text \<open>
  \<open>(ctypes.c_ubyte * n)()\<close>: the array type cannot be made when \<open>n\<close> does not fit a
  signed 64-bit index (\<open>OverflowError\<close>) or is negative (\<open>ValueError\<close>), and the array
  cannot be allocated when the machine has fewer than \<open>n\<close> bytes to give (\<open>MemoryError\<close>).
  How many bytes the machine can give is an input, \<open>avail\<close>.
\<close>

definition alloc_ubytes :: "int \<Rightarrow> int \<Rightarrow> py_error + int list" where
  "alloc_ubytes avail n =
     (if n < - (2 ^ 63) \<or> 2 ^ 63 - 1 < n then Inl OverflowError_ctypes
      else if n < 0 then Inl ValueError_ctypes
      else if avail < n then Inl MemoryError_ctypes
      else Inr (replicate (nat n) 0))"

text \<open>
  \<open>start_grabbing\<close>: the arguments are the bytes the machine can give and the status of
  \<open>MV_CC_StartGrabbing\<close>.
\<close>

definition zero_frame_info :: MV_FRAME_OUT_INFO_EX where
  "zero_frame_info = \<lparr>nWidth = 0, nHeight = 0, enPixelType = 0\<rparr>"

definition start_grabbing :: "camera \<Rightarrow> int \<Rightarrow> int \<Rightarrow> (py_error + unit) \<times> camera" where
  "start_grabbing c avail ret =
     (case alloc_ubytes avail (payload_size c) of
        Inl e \<Rightarrow> (Inl e, c)
      | Inr raw \<Rightarrow>
         (let c1 = c\<lparr>pData := Some raw\<rparr>
          in case alloc_ubytes (avail - payload_size c) (width c * height c * 3) of
               Inl e \<Rightarrow> (Inl e, c1)
             | Inr bgr \<Rightarrow>
                (let c2 = c1\<lparr>pDataBGR := Some bgr, stFrameInfo := Some zero_frame_info\<rparr>
                 in case cam c2 of
                      None \<Rightarrow> (Inl AttributeError_NoneType, c2)
                    | Some _ \<Rightarrow>
                        (let c3 = c2\<lparr>calls := calls c2 @ [MV_CC_StartGrabbing ret]\<rparr>
                         in if ret \<noteq> 0 then (Inl (RuntimeError_start_grabbing ret), c3)
                            else (Inr (), c3)))))"

text \<open>\<open>software_trigger\<close>: the argument is the status of the command write.\<close>

definition software_trigger :: "camera \<Rightarrow> int \<Rightarrow> (py_error + bool) \<times> camera" where
  "software_trigger c ret =
     (case cam c of
        None \<Rightarrow> (Inl AttributeError_NoneType, c)
      | Some _ \<Rightarrow>
          (Inr (ret = 0), c\<lparr>calls := calls c @ [MV_CC_SetCommandValue ''TriggerSoftware'']\<rparr>))"

definition disconnect :: "camera \<Rightarrow> (py_error + unit) \<times> camera" where
  "disconnect c =
     (case cam c of
        Some _ \<Rightarrow>
          (Inr (), c\<lparr>calls := calls c @ [MV_CC_CloseDevice, MV_CC_DestroyHandle], cam := None\<rparr>)
      | None \<Rightarrow> (Inr (), c))"

section \<open>Arrays and the library calls of the decoder\<close>

text \<open>
  A numpy array is its element type, its shape and its elements in row-major order, each
  element as the integer it denotes. Only what \<open>get_frame\<close> uses is modelled:
  \<^item> \<open>np.frombuffer(buf, dtype=np.uint8, count=n)\<close> reads the buffer in place and raises
    \<open>ValueError\<close> when the buffer holds fewer than \<open>n\<close> bytes;
  \<^item> a slice \<open>buf[:n]\<close> of a ctypes \<open>c_ubyte\<close> array is a Python list of integers, of
    length \<open>min n (len buf)\<close>, and \<open>np.ctypeslib.as_array\<close> of a list is \<open>np.asarray\<close> of
    it: an array of 8-byte elements (\<open>int64\<close>; \<open>float64\<close> when the list is empty);
  \<^item> \<open>.view(np.uint16)\<close> of such an array reinterprets its memory, so each 8-byte
    element becomes four 16-bit elements, least significant first;
  \<^item> \<open>.reshape\<close> raises \<open>ValueError\<close> unless the element counts agree;
  \<^item> \<open>cv2.cvtColor\<close> is kept symbolic: its result is the conversion code applied to the
    input array. It raises on an empty array and on an element type other than
    \<open>uint8\<close> and \<open>uint16\<close>.
\<close>

datatype dtype = uint8 | uint16 | int64 | float64

datatype ndarray = Ndarray dtype "nat list" "int list"

datatype color_code = COLOR_BAYER_RG2BGR | COLOR_GRAY2BGR

datatype image = CvtColor color_code ndarray | Copy ndarray

definition and_then :: "py_error + 'a \<Rightarrow> ('a \<Rightarrow> py_error + 'b) \<Rightarrow> py_error + 'b" where
  "and_then r f = (case r of Inl e \<Rightarrow> Inl e | Inr x \<Rightarrow> f x)"

definition frombuffer_uint8 :: "int list \<Rightarrow> nat \<Rightarrow> py_error + ndarray" where
  "frombuffer_uint8 buf n =
     (if length buf < n then Inl ValueError_numpy else Inr (Ndarray uint8 [n] (take n buf)))"

definition as_array :: "int list \<Rightarrow> ndarray" where
  "as_array xs = Ndarray (if xs = [] then float64 else int64) [length xs] xs"

definition int64_as_uint16s :: "int \<Rightarrow> int list" where
  "int64_as_uint16s v =
     [v mod 65536, (v div 65536) mod 65536, (v div 2 ^ 32) mod 65536, (v div 2 ^ 48) mod 65536]"

definition as_array_view_uint16 :: "int list \<Rightarrow> ndarray" where
  "as_array_view_uint16 xs =
     Ndarray uint16 [4 * length xs] (concat (map int64_as_uint16s xs))"

fun reshape :: "nat list \<Rightarrow> ndarray \<Rightarrow> py_error + ndarray" where
  "reshape sh (Ndarray dt sh0 xs) =
     (if prod_list sh = length xs then Inr (Ndarray dt sh xs) else Inl ValueError_numpy)"

fun rshift :: "ndarray \<Rightarrow> nat \<Rightarrow> ndarray" where
  "rshift (Ndarray dt sh xs) k = Ndarray dt sh (map (\<lambda>v. v div 2 ^ k) xs)"

fun astype_uint8 :: "ndarray \<Rightarrow> ndarray" where
  "astype_uint8 (Ndarray dt sh xs) = Ndarray uint8 sh (map (\<lambda>v. v mod 256) xs)"

fun cvtColor :: "ndarray \<Rightarrow> color_code \<Rightarrow> py_error + image" where
  "cvtColor (Ndarray dt sh xs) code =
     (if (dt = uint8 \<or> dt = uint16) \<and> xs \<noteq> [] then Inr (CvtColor code (Ndarray dt sh xs))
      else Inl cv2_error)"

section \<open>Fetching and decoding a frame\<close>

text \<open>
  The branch on the pixel type of \<open>get_frame\<close>, from the frame's own height, width and
  pixel type and the contents of \<open>pData\<close>.
\<close>

definition get_frame_decode :: "int list \<Rightarrow> MV_FRAME_OUT_INFO_EX \<Rightarrow> py_error + image option" where
  "get_frame_decode buf info =
     (let h = nHeight info; w = nWidth info; pixel_type = enPixelType info
      in if pixel_type = 0x01080009 then
           and_then (frombuffer_uint8 buf (h * w)) (\<lambda>flat.
           and_then (reshape [h, w] flat) (\<lambda>data.
           and_then (cvtColor data COLOR_BAYER_RG2BGR) (\<lambda>bgr. Inr (Some bgr))))
         else if pixel_type \<in> set [0x0110000D, 0x010C0027, 0x01100011, 0x010C002B] then
           and_then (reshape [h, w] (as_array_view_uint16 (take (h * w * 2) buf))) (\<lambda>data16.
           (let data8 = astype_uint8 (rshift data16 4)
            in and_then (cvtColor data8 COLOR_BAYER_RG2BGR) (\<lambda>bgr. Inr (Some bgr))))
         else if pixel_type = 0x01080001 then
           and_then (reshape [h, w] (as_array (take (h * w) buf))) (\<lambda>data.
           and_then (cvtColor data COLOR_GRAY2BGR) (\<lambda>bgr. Inr (Some bgr)))
         else if pixel_type = 0x02180014 then
           and_then (reshape [h, w, 3] (as_array (take (h * w * 3) buf))) (\<lambda>data.
           Inr (Some (Copy data)))
         else Inr None)"

text \<open>
  What the SDK answers to one \<open>MV_CC_GetOneFrameTimeout\<close>: the status, the frame
  information it fills in and the bytes it writes at the start of the buffer, whose
  length stays what \<open>start_grabbing\<close> allocated.
\<close>

record frame_resp =
  ret_GetOneFrame :: int
  frame_info :: MV_FRAME_OUT_INFO_EX
  frame_data :: "int list"

definition sdk_write :: "int list \<Rightarrow> int list \<Rightarrow> int list" where
  "sdk_write buf bytes = take (length buf) (bytes @ drop (length bytes) buf)"

definition get_frame :: "camera \<Rightarrow> int \<Rightarrow> frame_resp \<Rightarrow> (py_error + image option) \<times> camera" where
  "get_frame c timeout_ms r =
     (case stFrameInfo c of
        None \<Rightarrow> (Inl TypeError_byref, c)
      | Some _ \<Rightarrow>
          (let c1 = c\<lparr>stFrameInfo := Some zero_frame_info\<rparr>
           in case cam c1 of
                None \<Rightarrow> (Inl AttributeError_NoneType, c1)
              | Some _ \<Rightarrow>
                  (case pData c1 of
                     None \<Rightarrow> (Inl TypeError_byref, c1)
                   | Some buf \<Rightarrow>
                       (let c2 = c1\<lparr>calls := calls c1 @
                                      [MV_CC_GetOneFrameTimeout (payload_size c1) timeout_ms],
                                    pData := Some (sdk_write buf (frame_data r)),
                                    stFrameInfo := Some (frame_info r)\<rparr>
                        in if ret_GetOneFrame r \<noteq> 0 then (Inr None, c2)
                           else (get_frame_decode (sdk_write buf (frame_data r)) (frame_info r),
                                 c2)))))"

section \<open>The acquisition loop\<close>

text \<open>
  The loop of \<open>collect_images\<close>, one list element for each iteration: the status the SDK
  gives the software trigger (read only in software mode) and its answer to the fetch.
  The result is \<open>saved_count\<close>. Resizing and writing the file are left out.
\<close>

fun acquisition_loop ::
  "camera \<Rightarrow> string \<Rightarrow> int \<Rightarrow> (int \<times> frame_resp) list \<Rightarrow> nat \<Rightarrow> (py_error + nat) \<times> camera" where
  "acquisition_loop c trigger timeout [] saved_count = (Inr saved_count, c)"
| "acquisition_loop c trigger timeout ((st, r) # rs) saved_count =
     (case (if trigger = ''software'' then software_trigger c st else (Inr True, c)) of
        (Inl e, c1) \<Rightarrow> (Inl e, c1)
      | (Inr _, c1) \<Rightarrow>
          (case get_frame c1 timeout r of
             (Inl e, c2) \<Rightarrow> (Inl e, c2)
           | (Inr None, c2) \<Rightarrow> acquisition_loop c2 trigger timeout rs saved_count
           | (Inr (Some frame), c2) \<Rightarrow> acquisition_loop c2 trigger timeout rs (saved_count + 1)))"

section \<open>Reading the call trace\<close>

text \<open>
  A handle is acquired by a \<open>MV_CC_CreateHandle\<close> that returns 0 and released by
  \<open>MV_CC_DestroyHandle\<close>; the device streams from a \<open>MV_CC_StartGrabbing\<close> that returns
  0 until it is stopped, closed or its handle destroyed.
\<close>

fun handle_delta :: "sdk_call \<Rightarrow> int" where
  "handle_delta (MV_CC_CreateHandle r) = (if r = 0 then 1 else 0)"
| "handle_delta MV_CC_DestroyHandle = - 1"
| "handle_delta _ = 0"

definition handles_held :: "sdk_call list \<Rightarrow> int" where
  "handles_held cs = sum_list (map handle_delta cs)"

fun streaming_step :: "bool \<Rightarrow> sdk_call \<Rightarrow> bool" where
  "streaming_step b (MV_CC_StartGrabbing r) = (if r = 0 then True else b)"
| "streaming_step b MV_CC_StopGrabbing = False"
| "streaming_step b MV_CC_CloseDevice = False"
| "streaming_step b MV_CC_DestroyHandle = False"
| "streaming_step b _ = b"

definition streaming :: "sdk_call list \<Rightarrow> bool" where
  "streaming cs = foldl streaming_step False cs"

fun iterate_disconnect :: "nat \<Rightarrow> camera \<Rightarrow> camera" where
  "iterate_disconnect 0 c = c"
| "iterate_disconnect (Suc n) c = iterate_disconnect n (snd (disconnect c))"

section \<open>Concrete cameras\<close>

text \<open>A GigE camera at 192.168.2.124 with a 1920 x 1200 sensor in BayerRG8.\<close>

definition sensor_env :: connect_env where
  "sensor_env = \<lparr>devices = [\<lparr>nTLayerType = 1, nCurrentIp = 3232236156\<rparr>],
     ret_CreateHandle = 0, ret_OpenDevice = 0, cur_Width = 1920, cur_Height = 1200,
     cur_PayloadSize = 2304000, cur_PixelFormat = 0x01080009, ret_SetPixelFormat = 0,
     new_PayloadSize = 2304000\<rparr>"

definition sensor_camera :: camera where
  "sensor_camera = snd (connect (init ''192.168.2.124'') sensor_env)"

text \<open>
  A 2 x 2 camera that delivers BayerRG10 (two bytes a sample) and refuses the switch to
  BayerRG8, connected and streaming.
\<close>

definition tiny_env :: connect_env where
  "tiny_env = \<lparr>devices = [\<lparr>nTLayerType = 1, nCurrentIp = 3232236156\<rparr>],
     ret_CreateHandle = 0, ret_OpenDevice = 0, cur_Width = 2, cur_Height = 2,
     cur_PayloadSize = 8, cur_PixelFormat = 0x0110000D, ret_SetPixelFormat = 1,
     new_PayloadSize = 8\<rparr>"

definition tiny_camera :: camera where
  "tiny_camera =
     snd (start_grabbing (snd (connect (init ''192.168.2.124'') tiny_env)) 1000000 0)"

text \<open>The same for a 2 x 2 camera that delivers BayerRG12.\<close>

definition tiny12_env :: connect_env where
  "tiny12_env = tiny_env\<lparr>cur_PixelFormat := 0x01100011\<rparr>"

definition tiny12_camera :: camera where
  "tiny12_camera =
     snd (start_grabbing (snd (connect (init ''192.168.2.124'') tiny12_env)) 1000000 0)"

text \<open>The same sensor while another client holds it: the open is refused.\<close>

definition busy_env :: connect_env where
  "busy_env = sensor_env\<lparr>ret_OpenDevice := 0x80000203\<rparr>"

definition frame_of :: "int \<Rightarrow> nat \<Rightarrow> int list \<Rightarrow> frame_resp" where
  "frame_of ret pixel_type bytes =
     \<lparr>ret_GetOneFrame = ret,
      frame_info = \<lparr>nWidth = 2, nHeight = 2, enPixelType = pixel_type\<rparr>,
      frame_data = bytes\<rparr>"

section \<open>Facts about the model\<close>

lemma ip_str_example: "ip_str 3232236156 = ''192.168.2.124''"
  by (simp add: ip_str_def)

lemma sensor_camera_eq:
  "sensor_camera =
     \<lparr>camera_ip = ''192.168.2.124'', cam = Some MvCamera,
      dev_info = Some \<lparr>nTLayerType = 1, nCurrentIp = 3232236156\<rparr>,
      width = 1920, height = 1200, payload_size = 2304000, pixel_format = 0x01080009,
      pData = None, pDataBGR = None, stFrameInfo = None,
      calls = [MV_CC_EnumDevices, MV_CC_CreateHandle 0, MV_CC_OpenDevice 0,
               MV_CC_GetIntValue ''Width'', MV_CC_GetIntValue ''Height'',
               MV_CC_GetIntValue ''PayloadSize'', MV_CC_GetEnumValue ''PixelFormat'']\<rparr>"
  by (simp add: sensor_camera_def connect_def init_def sensor_env_def Let_def
        MV_GIGE_DEVICE_def ip_str_example BAYER_RG8_def)

lemma tiny_camera_eq:
  "tiny_camera =
     \<lparr>camera_ip = ''192.168.2.124'', cam = Some MvCamera,
      dev_info = Some \<lparr>nTLayerType = 1, nCurrentIp = 3232236156\<rparr>,
      width = 2, height = 2, payload_size = 8, pixel_format = 0x0110000D,
      pData = Some (replicate 8 0),
      pDataBGR = Some (replicate 12 0),
      stFrameInfo = Some \<lparr>nWidth = 0, nHeight = 0, enPixelType = 0\<rparr>,
      calls = [MV_CC_EnumDevices, MV_CC_CreateHandle 0, MV_CC_OpenDevice 0,
               MV_CC_GetIntValue ''Width'', MV_CC_GetIntValue ''Height'',
               MV_CC_GetIntValue ''PayloadSize'', MV_CC_GetEnumValue ''PixelFormat'',
               MV_CC_SetEnumValue ''PixelFormat'' 0x01080009, MV_CC_StartGrabbing 0]\<rparr>"
  by (simp add: tiny_camera_def start_grabbing_def alloc_ubytes_def connect_def init_def
        tiny_env_def Let_def MV_GIGE_DEVICE_def ip_str_example BAYER_RG8_def
        zero_frame_info_def)

lemma tiny12_camera_eq:
  "tiny12_camera =
     \<lparr>camera_ip = ''192.168.2.124'', cam = Some MvCamera,
      dev_info = Some \<lparr>nTLayerType = 1, nCurrentIp = 3232236156\<rparr>,
      width = 2, height = 2, payload_size = 8, pixel_format = 0x01100011,
      pData = Some (replicate 8 0),
      pDataBGR = Some (replicate 12 0),
      stFrameInfo = Some \<lparr>nWidth = 0, nHeight = 0, enPixelType = 0\<rparr>,
      calls = [MV_CC_EnumDevices, MV_CC_CreateHandle 0, MV_CC_OpenDevice 0,
               MV_CC_GetIntValue ''Width'', MV_CC_GetIntValue ''Height'',
               MV_CC_GetIntValue ''PayloadSize'', MV_CC_GetEnumValue ''PixelFormat'',
               MV_CC_SetEnumValue ''PixelFormat'' 0x01080009, MV_CC_StartGrabbing 0]\<rparr>"
  by (simp add: tiny12_camera_def start_grabbing_def alloc_ubytes_def connect_def init_def
        tiny12_env_def tiny_env_def Let_def MV_GIGE_DEVICE_def ip_str_example BAYER_RG8_def
        zero_frame_info_def)

lemma busy_connect_eq:
  "connect (init ''192.168.2.124'') busy_env =
     (Inl (RuntimeError_open_device 0x80000203),
      \<lparr>camera_ip = ''192.168.2.124'', cam = Some MvCamera,
       dev_info = Some \<lparr>nTLayerType = 1, nCurrentIp = 3232236156\<rparr>,
       width = 0, height = 0, payload_size = 0, pixel_format = 0,
       pData = None, pDataBGR = None, stFrameInfo = None,
       calls = [MV_CC_EnumDevices, MV_CC_CreateHandle 0, MV_CC_OpenDevice 0x80000203,
                MV_CC_DestroyHandle]\<rparr>)"
  by (simp add: connect_def init_def busy_env_def sensor_env_def Let_def MV_GIGE_DEVICE_def
        ip_str_example)

lemma streaming_snoc: "streaming (cs @ [x]) = streaming_step (streaming cs) x"
  by (simp add: streaming_def)

lemma iterate_disconnect_None: "cam c = None \<Longrightarrow> iterate_disconnect n c = c"
  by (induction n) (simp_all add: disconnect_def)

lemmas frame_eval = get_frame_def frame_of_def sdk_write_def get_frame_decode_def
  and_then_def as_array_view_uint16_def int64_as_uint16s_def as_array_def
  frombuffer_uint8_def Let_def zero_frame_info_def

section \<open>Region of interest\<close>

text \<open>
  C1. On a connected camera, for every requested width and height no larger than the
  current extent and with both offsets left unspecified, \<open>set_roi\<close> writes to the device
  the offsets \<open>(extent - requested) div 2\<close> (floor division), and each offset is at least
  0 and, added to the requested size, at most the extent. The witness is the 1920 x 1200
  sensor with a requested 640 x 640 region: OffsetX is 640 and OffsetY is 280.
\<close>

theorem set_roi_centered:
  assumes "cam c \<noteq> None" and "w \<le> width c" and "h \<le> height c"
  shows "set_roi c w h None None p =
           (Inr (),
            c\<lparr>calls := calls c @
                 [MV_CC_SetIntValue ''Width'' w, MV_CC_SetIntValue ''Height'' h,
                  MV_CC_SetIntValue ''OffsetX'' ((width c - w) div 2),
                  MV_CC_SetIntValue ''OffsetY'' ((height c - h) div 2),
                  MV_CC_GetIntValue ''PayloadSize''],
               payload_size := p, width := w, height := h\<rparr>)
         \<and> 0 \<le> (width c - w) div 2 \<and> (width c - w) div 2 + w \<le> width c
         \<and> 0 \<le> (height c - h) div 2 \<and> (height c - h) div 2 + h \<le> height c"
proof -
  from assms(2) have x: "0 \<le> (width c - w) div 2" "(width c - w) div 2 \<le> width c - w"
    by simp_all
  from assms(3) have y: "0 \<le> (height c - h) div 2" "(height c - h) div 2 \<le> height c - h"
    by simp_all
  from assms(1) obtain m where m: "cam c = Some m" by auto
  from x y m show ?thesis
    by (simp add: set_roi_def Let_def max_def min_def)
qed

theorem set_roi_centered_witness:
  "width sensor_camera = 1920 \<and> height sensor_camera = 1200
   \<and> calls (snd (set_roi sensor_camera 640 640 None None 409600)) =
       calls sensor_camera @
         [MV_CC_SetIntValue ''Width'' 640, MV_CC_SetIntValue ''Height'' 640,
          MV_CC_SetIntValue ''OffsetX'' 640, MV_CC_SetIntValue ''OffsetY'' 280,
          MV_CC_GetIntValue ''PayloadSize'']"
proof -
  have a: "cam sensor_camera \<noteq> None" by (simp add: sensor_camera_eq)
  have b: "640 \<le> width sensor_camera" by (simp add: sensor_camera_eq)
  have c: "640 \<le> height sensor_camera" by (simp add: sensor_camera_eq)
  have d: "width sensor_camera = 1920" "height sensor_camera = 1200"
    by (simp_all add: sensor_camera_eq)
  from set_roi_centered [OF a b c, of 409600] d show ?thesis by simp
qed

section \<open>Trigger configuration and the software trigger\<close>

text \<open>
  C10. For every mode string other than \<open>continuous\<close>, \<open>software\<close> and \<open>hardware\<close>,
  \<open>set_trigger_mode\<close> raises \<open>ValueError\<close> and the camera, with its record of device
  calls, is as it was: no parameter write has been issued.
\<close>

theorem set_trigger_mode_unknown:
  assumes "mode \<notin> {''continuous'', ''software'', ''hardware''}"
  shows "set_trigger_mode c mode = (Inl (ValueError_unknown_trigger_mode mode), c)"
  using assms by (simp add: set_trigger_mode_def)

theorem set_trigger_mode_unknown_witness:
  "''external'' \<notin> {''continuous'', ''software'', ''hardware''}
   \<and> set_trigger_mode sensor_camera ''external'' =
       (Inl (ValueError_unknown_trigger_mode ''external''), sensor_camera)"
proof -
  have a: "''external'' \<notin> {''continuous'', ''software'', ''hardware''}" by simp
  from a set_trigger_mode_unknown [OF a, of sensor_camera] show ?thesis by simp
qed

text \<open>
  C5, as the specification states it, fails: after \<open>set_trigger_mode\<close> has configured
  continuous acquisition, a \<open>software_trigger\<close> whose command write the SDK answers with
  status 0 returns \<open>True\<close>.
\<close>

theorem software_trigger_counterexample:
  "fst (set_trigger_mode sensor_camera ''continuous'') = Inr ()
   \<and> fst (software_trigger (snd (set_trigger_mode sensor_camera ''continuous'')) 0) = Inr True"
  by (simp add: sensor_camera_eq set_trigger_mode_def software_trigger_def)

text \<open>
  C5, amended. On a connected camera, whatever trigger mode has been configured,
  \<open>software_trigger\<close> sends the \<open>TriggerSoftware\<close> command and returns \<open>True\<close> exactly when
  the SDK answers with status 0; it makes no check of the trigger mode of its own and
  raises nothing.
\<close>

theorem software_trigger_relays_status:
  assumes "cam c \<noteq> None"
  shows "software_trigger c ret =
           (Inr (ret = 0), c\<lparr>calls := calls c @ [MV_CC_SetCommandValue ''TriggerSoftware'']\<rparr>)"
  using assms by (auto simp: software_trigger_def)

theorem software_trigger_relays_status_witness:
  "cam (snd (set_trigger_mode sensor_camera ''hardware'')) \<noteq> None
   \<and> fst (software_trigger (snd (set_trigger_mode sensor_camera ''hardware'')) 0) = Inr True
   \<and> fst (software_trigger (snd (set_trigger_mode sensor_camera ''software'')) 1) = Inr False"
proof -
  have a: "cam (snd (set_trigger_mode sensor_camera ''hardware'')) \<noteq> None"
    by (simp add: sensor_camera_eq set_trigger_mode_def)
  have b: "cam (snd (set_trigger_mode sensor_camera ''software'')) \<noteq> None"
    by (simp add: sensor_camera_eq set_trigger_mode_def)
  from a software_trigger_relays_status [OF a, of 0] software_trigger_relays_status [OF b, of 1]
  show ?thesis by simp
qed

section \<open>Disconnecting\<close>

text \<open>
  C7 does not hold of the code. When \<open>connect\<close> has failed because the open was refused,
  it has destroyed the handle, the session is disconnected, but \<open>cam\<close> still holds the
  SDK object. A \<open>disconnect\<close> of that session is not a no-op: it issues
  \<open>MV_CC_CloseDevice\<close> and a second \<open>MV_CC_DestroyHandle\<close>, one release more than
  handles were acquired.
\<close>

theorem disconnect_after_failed_open:
  "fst (connect (init ''192.168.2.124'') busy_env) = Inl (RuntimeError_open_device 0x80000203)
   \<and> cam (snd (connect (init ''192.168.2.124'') busy_env)) = Some MvCamera
   \<and> calls (snd (disconnect (snd (connect (init ''192.168.2.124'') busy_env)))) =
       [MV_CC_EnumDevices, MV_CC_CreateHandle 0, MV_CC_OpenDevice 0x80000203,
        MV_CC_DestroyHandle, MV_CC_CloseDevice, MV_CC_DestroyHandle]
   \<and> handles_held (calls (snd (disconnect (snd (connect (init ''192.168.2.124'') busy_env)))))
       = - 1"
  by (simp add: busy_connect_eq disconnect_def handles_held_def)

text \<open>
  What does hold of \<open>disconnect\<close>: it never raises; on a camera whose \<open>cam\<close> is \<open>None\<close> it
  changes nothing and issues no call; a second \<open>disconnect\<close> right after a first changes
  nothing; and any positive number of consecutive \<open>disconnect\<close> calls issues
  \<open>MV_CC_CloseDevice\<close> and \<open>MV_CC_DestroyHandle\<close> once if \<open>cam\<close> was set and not at all
  otherwise.
\<close>

lemma disconnect_repeated:
  "fst (disconnect c) = Inr ()
   \<and> (cam c = None \<longrightarrow> disconnect c = (Inr (), c))
   \<and> disconnect (snd (disconnect c)) = (Inr (), snd (disconnect c))
   \<and> calls (iterate_disconnect (Suc n) c) =
       calls c @ (if cam c = None then [] else [MV_CC_CloseDevice, MV_CC_DestroyHandle])"
proof -
  have 1: "fst (disconnect c) = Inr ()"
    by (simp add: disconnect_def split: option.splits)
  have 2: "cam c = None \<longrightarrow> disconnect c = (Inr (), c)"
    by (simp add: disconnect_def)
  have n: "cam (snd (disconnect c)) = None"
    by (simp add: disconnect_def split: option.splits)
  then have 3: "disconnect (snd (disconnect c)) = (Inr (), snd (disconnect c))"
    by (simp add: disconnect_def)
  have "iterate_disconnect (Suc n) c = snd (disconnect c)"
    using iterate_disconnect_None [OF n] by simp
  then have 4: "calls (iterate_disconnect (Suc n) c) =
       calls c @ (if cam c = None then [] else [MV_CC_CloseDevice, MV_CC_DestroyHandle])"
    by (simp add: disconnect_def split: option.splits)
  from 1 2 3 4 show ?thesis by blast
qed

section \<open>Connecting\<close>

text \<open>
  C6. Whenever \<open>connect\<close> raises, the number of handles held according to the calls it
  has issued is what it was before the call: no handle is left acquired on any failure
  branch. In particular, when the device is found, \<open>MV_CC_CreateHandle\<close> returns 0 and
  \<open>MV_CC_OpenDevice\<close> returns a non-zero status, \<open>connect\<close> issues
  \<open>MV_CC_DestroyHandle\<close> as its last call and then raises the error that carries the
  status of the open (a \<open>RuntimeError\<close> in the code).
\<close>

theorem connect_failure_releases_handle:
  "(fst (connect c env) = Inl e \<longrightarrow>
      handles_held (calls (snd (connect c env))) = handles_held (calls c))
   \<and> (find_camera_by_ip (devices env) (camera_ip c) \<noteq> None
        \<and> ret_CreateHandle env = 0 \<and> ret_OpenDevice env \<noteq> 0 \<longrightarrow>
      fst (connect c env) = Inl (RuntimeError_open_device (ret_OpenDevice env))
      \<and> calls (snd (connect c env)) =
          calls c @ [MV_CC_EnumDevices, MV_CC_CreateHandle 0,
                     MV_CC_OpenDevice (ret_OpenDevice env), MV_CC_DestroyHandle])"
proof -
  have 1: "fst (connect c env) = Inl e \<longrightarrow>
      handles_held (calls (snd (connect c env))) = handles_held (calls c)"
    by (simp add: connect_def Let_def handles_held_def split: option.splits)
  have 2: "find_camera_by_ip (devices env) (camera_ip c) \<noteq> None
        \<and> ret_CreateHandle env = 0 \<and> ret_OpenDevice env \<noteq> 0 \<longrightarrow>
      fst (connect c env) = Inl (RuntimeError_open_device (ret_OpenDevice env))
      \<and> calls (snd (connect c env)) =
          calls c @ [MV_CC_EnumDevices, MV_CC_CreateHandle 0,
                     MV_CC_OpenDevice (ret_OpenDevice env), MV_CC_DestroyHandle]"
    by (auto simp: connect_def Let_def)
  from 1 2 show ?thesis by blast
qed

theorem connect_failure_releases_handle_witness:
  "fst (connect (init ''192.168.2.124'') busy_env) = Inl (RuntimeError_open_device 0x80000203)
   \<and> calls (snd (connect (init ''192.168.2.124'') busy_env)) =
       [MV_CC_EnumDevices, MV_CC_CreateHandle 0, MV_CC_OpenDevice 0x80000203,
        MV_CC_DestroyHandle]
   \<and> handles_held (calls (snd (connect (init ''192.168.2.124'') busy_env))) = 0"
proof -
  have a: "find_camera_by_ip (devices busy_env) (camera_ip (init ''192.168.2.124'')) \<noteq> None"
    by (simp add: busy_env_def sensor_env_def init_def MV_GIGE_DEVICE_def ip_str_example)
  have b: "ret_CreateHandle busy_env = 0" "ret_OpenDevice busy_env = 0x80000203"
    by (simp_all add: busy_env_def sensor_env_def)
  have c: "calls (init ''192.168.2.124'') = []" by (simp add: init_def)
  from a b c
    connect_failure_releases_handle
      [of "init ''192.168.2.124''" busy_env "RuntimeError_open_device 0x80000203"]
  show ?thesis by (simp add: handles_held_def)
qed

section \<open>Fetching a frame\<close>

text \<open>
  C3, as the specification states it, fails: a fetch that the SDK answers with the
  no-data status \<open>0x80000007\<close> makes \<open>get_frame\<close> return \<open>None\<close>, which is no error and
  is the very value \<open>get_frame\<close> returns for a fetched frame of unrecognised pixel
  format, so the timeout cannot be told apart from it.
\<close>

theorem get_frame_timeout_counterexample:
  "fst (get_frame tiny_camera 3000 (frame_of 0x80000007 0 [])) = Inr None
   \<and> fst (get_frame tiny_camera 3000 (frame_of 0x80000007 0 [])) =
       fst (get_frame tiny_camera 3000 (frame_of 0 0x12345678 [1, 2, 3, 4]))"
  by (simp add: tiny_camera_eq frame_eval)

text \<open>
  C3, amended. On a camera that has been started, for every timeout value, a
  \<open>get_frame\<close> call whose fetch returns a non-zero status returns \<open>None\<close>; the only SDK
  call it issues is the fetch, so the device streams afterwards exactly if it did
  before, and the camera still has its SDK object, its buffer and its frame information,
  ready for the next \<open>get_frame\<close> call.
\<close>

theorem get_frame_fetch_failed:
  assumes "cam c \<noteq> None" and "stFrameInfo c \<noteq> None" and "pData c = Some buf"
    and "ret_GetOneFrame r \<noteq> 0"
  shows "get_frame c t r =
           (Inr None,
            c\<lparr>calls := calls c @ [MV_CC_GetOneFrameTimeout (payload_size c) t],
               pData := Some (sdk_write buf (frame_data r)),
               stFrameInfo := Some (frame_info r)\<rparr>)
         \<and> streaming (calls (snd (get_frame c t r))) = streaming (calls c)
         \<and> cam (snd (get_frame c t r)) \<noteq> None
         \<and> stFrameInfo (snd (get_frame c t r)) \<noteq> None
         \<and> pData (snd (get_frame c t r)) \<noteq> None"
proof -
  from assms(1) obtain m where m: "cam c = Some m" by auto
  from assms(2) obtain i where i: "stFrameInfo c = Some i" by auto
  have eq: "get_frame c t r =
           (Inr None,
            c\<lparr>calls := calls c @ [MV_CC_GetOneFrameTimeout (payload_size c) t],
               pData := Some (sdk_write buf (frame_data r)),
               stFrameInfo := Some (frame_info r)\<rparr>)"
    using m i assms(3,4) by (simp add: get_frame_def Let_def)
  show ?thesis
    unfolding eq using m by (simp add: streaming_snoc)
qed

theorem get_frame_fetch_failed_witness:
  "streaming (calls tiny_camera)
   \<and> fst (get_frame tiny_camera 5000 (frame_of 0x80000007 0 [])) = Inr None
   \<and> streaming (calls (snd (get_frame tiny_camera 5000 (frame_of 0x80000007 0 []))))
   \<and> fst (get_frame (snd (get_frame tiny_camera 5000 (frame_of 0x80000007 0 []))) 5000
            (frame_of 0 0x01080009 [1, 2, 3, 4])) =
       Inr (Some (CvtColor COLOR_BAYER_RG2BGR (Ndarray uint8 [2, 2] [1, 2, 3, 4])))"
proof -
  have a: "cam tiny_camera \<noteq> None" "stFrameInfo tiny_camera \<noteq> None"
    "pData tiny_camera = Some (replicate 8 0)"
    by (simp_all add: tiny_camera_eq)
  have b: "ret_GetOneFrame (frame_of 0x80000007 0 []) \<noteq> 0"
    by (simp add: frame_of_def)
  have s: "streaming (calls tiny_camera)"
    by (simp add: tiny_camera_eq streaming_def)
  note t = get_frame_fetch_failed [OF a b, of 5000]
  have n: "fst (get_frame (snd (get_frame tiny_camera 5000 (frame_of 0x80000007 0 []))) 5000
            (frame_of 0 0x01080009 [1, 2, 3, 4])) =
       Inr (Some (CvtColor COLOR_BAYER_RG2BGR (Ndarray uint8 [2, 2] [1, 2, 3, 4])))"
    by (simp add: tiny_camera_eq frame_eval)
  note t1 = t [THEN conjunct1]
  note t2 = t [THEN conjunct2, THEN conjunct1]
  from t1 have f: "fst (get_frame tiny_camera 5000 (frame_of 0x80000007 0 [])) = Inr None"
    by simp
  from t2 s have g: "streaming (calls (snd (get_frame tiny_camera 5000 (frame_of 0x80000007 0 []))))"
    by simp
  from s f g n show ?thesis by blast
qed

text \<open>
  C4, as the specification states it, fails: a fetched frame tagged Mono16
  (\<open>0x01100007\<close>), a code \<open>get_frame\<close> does not name, makes \<open>get_frame\<close> return \<open>None\<close>.
  That is a normal return and no error, and it is the very value \<open>get_frame\<close> returns
  when the fetch itself fails, so no decoding error reaches the caller.
\<close>

theorem get_frame_unknown_format_counterexample:
  "fst (get_frame tiny_camera 5000 (frame_of 0 0x01100007 [1, 2, 3, 4, 5, 6, 7, 8])) = Inr None
   \<and> fst (get_frame tiny_camera 5000 (frame_of 0 0x01100007 [1, 2, 3, 4, 5, 6, 7, 8])) =
       fst (get_frame tiny_camera 5000 (frame_of 0x80000007 0x01100007 []))"
  by (simp add: tiny_camera_eq frame_eval)

text \<open>
  C4, amended. On a camera that has been started, for every fetched frame whose pixel
  type is none of the seven codes \<open>get_frame\<close> names, \<open>get_frame\<close> returns \<open>None\<close>, the
  value it also returns for a failed fetch: it raises nothing and returns no image. The
  acquisition loop then goes on with its remaining iterations and an unchanged count of
  saved frames.
\<close>

theorem get_frame_unknown_format:
  assumes "cam c \<noteq> None" and "stFrameInfo c \<noteq> None" and "pData c \<noteq> None"
    and "ret_GetOneFrame r = 0"
    and "enPixelType (frame_info r) \<notin>
           {0x01080009, 0x0110000D, 0x010C0027, 0x01100011, 0x010C002B, 0x01080001, 0x02180014}"
  shows "fst (get_frame c t r) = Inr None
         \<and> acquisition_loop c trigger t ((st, r) # rs) n =
             acquisition_loop
               (snd (get_frame (if trigger = ''software'' then snd (software_trigger c st) else c)
                      t r))
               trigger t rs n"
proof -
  from assms(1) obtain m where m: "cam c = Some m" by auto
  from assms(2) obtain i where i: "stFrameInfo c = Some i" by auto
  from assms(3) obtain buf where buf: "pData c = Some buf" by auto
  have d: "get_frame_decode b (frame_info r) = Inr None" for b
    using assms(5) by (simp add: get_frame_decode_def Let_def)
  have g: "fst (get_frame c' t r) = Inr None"
    if "cam c' = Some m" "stFrameInfo c' = Some i" "pData c' = Some buf" for c'
    using that assms(4) d by (simp add: get_frame_def Let_def)
  have 1: "fst (get_frame c t r) = Inr None"
    using g [OF m i buf] .
  have 2: "acquisition_loop c trigger t ((st, r) # rs) n =
             acquisition_loop
               (snd (get_frame (if trigger = ''software'' then snd (software_trigger c st) else c)
                      t r))
               trigger t rs n"
  proof (cases "trigger = ''software''")
    case True
    obtain c1 where st: "software_trigger c st = (Inr (st = 0), c1)"
      using m by (simp add: software_trigger_def)
    have "fst (get_frame c1 t r) = Inr None"
      by (rule g) (use st m i buf in \<open>auto simp: software_trigger_def\<close>)
    then obtain c2 where gf: "get_frame c1 t r = (Inr None, c2)"
      by (metis prod.collapse)
    from True st gf show ?thesis by simp
  next
    case False
    from 1 obtain c2 where gf: "get_frame c t r = (Inr None, c2)"
      by (metis prod.collapse)
    from False gf show ?thesis by simp
  qed
  from 1 2 show ?thesis by blast
qed

theorem get_frame_unknown_format_witness:
  "fst (get_frame tiny_camera 5000 (frame_of 0 0x12345678 [1, 2, 3, 4])) = Inr None
   \<and> fst (acquisition_loop tiny_camera ''continuous'' 5000
            [(0, frame_of 0 0x12345678 [1, 2, 3, 4]), (0, frame_of 0 0x01080009 [1, 2, 3, 4])] 0)
       = Inr 1"
proof -
  have a: "cam tiny_camera \<noteq> None" "stFrameInfo tiny_camera \<noteq> None"
    "pData tiny_camera \<noteq> None"
    by (simp_all add: tiny_camera_eq)
  have b: "ret_GetOneFrame (frame_of 0 0x12345678 [1, 2, 3, 4]) = 0"
    by (simp add: frame_of_def)
  have c: "enPixelType (frame_info (frame_of 0 0x12345678 [1, 2, 3, 4])) \<notin>
           {0x01080009, 0x0110000D, 0x010C0027, 0x01100011, 0x010C002B, 0x01080001, 0x02180014}"
    by (simp add: frame_of_def)
  note t = get_frame_unknown_format [OF a b c, of 5000 "''continuous''" 0
      "[(0, frame_of 0 0x01080009 [1, 2, 3, 4])]" 0]
  have n: "fst (acquisition_loop
              (snd (get_frame tiny_camera 5000 (frame_of 0 0x12345678 [1, 2, 3, 4])))
              ''continuous'' 5000 [(0, frame_of 0 0x01080009 [1, 2, 3, 4])] 0) = Inr 1"
    by (simp add: tiny_camera_eq frame_eval)
  from t n show ?thesis by simp
qed

text \<open>
  C9 does not hold of the code. On the streaming 2 x 2 camera, a successful fetch of a
  frame tagged BayerRG10 Packed (\<open>0x010C0027\<close>) makes \<open>get_frame\<close> raise \<open>ValueError\<close>:
  the slice of the buffer is a list, the array made from it has 8-byte elements, its
  16-bit view has 32 elements, and these cannot be reshaped to 2 x 2.
\<close>

theorem get_frame_raises:
  "fst (get_frame tiny_camera 3000
          (frame_of 0 0x010C0027 [0xFC, 0x03, 0xFC, 0x03, 0xFC, 0x03, 0xFC, 0x03])) =
     Inl ValueError_numpy"
  by (simp add: tiny_camera_eq frame_eval)

section \<open>Reducing multi-bit Bayer samples to 8 bits\<close>

text \<open>
  C2 does not hold of the code. On the streaming 2 x 2 camera, a successful fetch of a
  BayerRG10 frame (\<open>0x0110000D\<close>) whose four samples are \<open>0x3FC\<close>, two bytes each, makes
  \<open>get_frame\<close> raise \<open>ValueError\<close> instead of producing a grid. And the reduction the
  code applies to a grid of 16-bit samples shifts by 4 for the 10-bit codes as well:
  the sample \<open>0x3FC\<close> becomes \<open>0x3F\<close>, where a shift by 2 gives \<open>0xFF\<close>.
\<close>

theorem get_frame_bayer10_diverges:
  "fst (get_frame tiny_camera 3000
          (frame_of 0 0x0110000D [0xFC, 0x03, 0xFC, 0x03, 0xFC, 0x03, 0xFC, 0x03])) =
     Inl ValueError_numpy
   \<and> astype_uint8 (rshift (Ndarray uint16 [2, 2] [0x3FC, 0x3FC, 0x3FC, 0x3FC]) 4) =
       Ndarray uint8 [2, 2] [0x3F, 0x3F, 0x3F, 0x3F]"
  by (simp add: tiny_camera_eq frame_eval)

text \<open>
  C8 does not hold of the code. On the streaming 2 x 2 BayerRG12 camera, a successful
  fetch of a frame whose four samples are \<open>0xFF0\<close>, stored as the bytes \<open>F0 0F\<close>, makes
  \<open>get_frame\<close> raise \<open>ValueError\<close>: no sample is decoded to \<open>0xFF\<close>. The 16-bit view the
  code builds from the two bytes of one sample holds \<open>0xF0\<close> and \<open>0x0F\<close> apart, each
  followed by three zeros, and never the sample \<open>0xFF0\<close>.
\<close>

theorem get_frame_bayer12_sample_FF0:
  "fst (get_frame tiny12_camera 3000
          (frame_of 0 0x01100011 [0xF0, 0x0F, 0xF0, 0x0F, 0xF0, 0x0F, 0xF0, 0x0F])) =
     Inl ValueError_numpy
   \<and> as_array_view_uint16 [0xF0, 0x0F] = Ndarray uint16 [8] [0xF0, 0, 0, 0, 0x0F, 0, 0, 0]"
  by (simp add: tiny12_camera_eq frame_eval)

text \<open>
  The branch of the 10-bit and 12-bit codes raises for every frame of at least one pixel
  whose two bytes a sample all lie in the buffer.
\<close>

lemma multibit_decode_raises:
  assumes "pt \<in> {0x0110000D, 0x010C0027, 0x01100011, 0x010C002B}"
    and "0 < h * w" and "h * w * 2 \<le> length buf"
  shows "get_frame_decode buf \<lparr>nWidth = w, nHeight = h, enPixelType = pt\<rparr> =
           Inl ValueError_numpy"
proof -
  have len: "length (concat (map int64_as_uint16s xs)) = 4 * length xs" for xs
    by (induction xs) (simp_all add: int64_as_uint16s_def)
  have "length (take (h * w * 2) buf) = h * w * 2"
    using assms(3) by simp
  then have "length (concat (map int64_as_uint16s (take (h * w * 2) buf))) = 8 * (h * w)"
    by (simp add: len)
  with assms(2) have ne:
    "h * w \<noteq> length (concat (map int64_as_uint16s (take (h * w * 2) buf)))"
    by simp
  have r: "reshape [h, w] (as_array_view_uint16 (take (h * w * 2) buf)) = Inl ValueError_numpy"
    using ne by (simp add: as_array_view_uint16_def)
  from assms(1) have "pt \<noteq> 0x01080009" by auto
  with assms(1) r show ?thesis
    by (simp add: get_frame_decode_def Let_def and_then_def)
qed

text \<open>
  The reduction \<open>(data16 >> 4).astype(np.uint8)\<close> by itself maps a sample \<open>0xFF0\<close> to
  \<open>0xFF\<close>.
\<close>

lemma shift_rule_at_FF0:
  "astype_uint8 (rshift (Ndarray uint16 [1, 1] [0xFF0]) 4) = Ndarray uint8 [1, 1] [0xFF]"
  by simp

end
